theory Spec2Isabelle
  imports Main "HOL-Library.Sublist" "HOL-Library.Option_ord"
begin

section \<open>Strings, SQL text operators and Python formatting\<close>

text \<open>
  Python \<open>str\<close> and PostgreSQL \<open>text\<close> values are modelled as \<open>string\<close>, a list of
  one-byte characters. SQL \<open>lower\<close> is modelled on the ASCII letters: \<open>A\<close>..\<open>Z\<close>
  move to \<open>a\<close>..\<open>z\<close>, every other character is kept.
\<close>

definition lower_char :: "char \<Rightarrow> char" where
  "lower_char c =
     (case map_of (zip ''ABCDEFGHIJKLMNOPQRSTUVWXYZ'' ''abcdefghijklmnopqrstuvwxyz'') c of
        Some d \<Rightarrow> d
      | None \<Rightarrow> c)"

definition lower :: "string \<Rightarrow> string" where
  "lower s = map lower_char s"


fun like_wellformed :: "string \<Rightarrow> bool" where
  "like_wellformed [] = True"
| "like_wellformed [c] = (c \<noteq> CHR 0x5C)"
| "like_wellformed (c # d # p) =
     (if c = CHR 0x5C then like_wellformed p else like_wellformed (d # p))"

text \<open>The f-string \<open>f"%{q}%"\<close> that every list endpoint builds from its filter.\<close>

definition like_pattern :: "string \<Rightarrow> string" where
  "like_pattern q = ''%'' @ q @ ''%''"

text \<open>Python's \<open>str(n)\<close> for an integer, as the f-strings of the error messages use it.\<close>

definition digit_char :: "nat \<Rightarrow> char" where
  "digit_char d = ''0123456789'' ! d"

fun str_nat :: "nat \<Rightarrow> string" where
  "str_nat n = (if n < 10 then [digit_char n] else str_nat (n div 10) @ [digit_char (n mod 10)])"

definition str_int :: "int \<Rightarrow> string" where
  "str_int i = (if i < 0 then ''-'' @ str_nat (nat (- i)) else str_nat (nat i))"


section \<open>The database\<close>

text \<open>
  Modelled from the spec: the table declarations (the SQL schema) are not part of the
  source files; the columns are the ones the SQL statements of \<open>main.py\<close> name. Field
  names carry the alias the statements give the table (\<open>v.venue_name\<close> is
  \<open>v_venue_name\<close>). Timestamps are integers; a column the statements guard against
  \<open>NULL\<close> (\<open>x.isoformat() if x else None\<close>) is optional.
\<close>

record venues_row =
  v_venue_id :: int
  v_venue_name :: string
  v_address :: "string option"
  v_city :: string
  v_state :: string
  v_created_at :: "int option"

record players_row =
  p_player_id :: int
  p_display_name :: string
  p_avatar_url :: "string option"
  p_created_at :: "int option"

record games_row =
  g_game_id :: int
  g_game_title :: string
  g_start_time :: "int option"
  g_status :: string
  g_venue_id :: int

record results_row =
  r_game_id :: int
  r_finish_rank :: int
  r_player_id :: int
  r_points :: int
  r_kos :: int
  r_eliminated_by_player_id :: "int option"

text \<open>
  The state of the database: the four tables in storage order, the sequences behind the
  generated keys, and the clock behind \<open>created_at\<close>. The connection runs with
  \<open>autocommit=True\<close>, so every statement takes effect when it is executed.
\<close>

record db =
  venues :: "venues_row list"
  players :: "players_row list"
  games :: "games_row list"
  results :: "results_row list"
  venues_seq :: int
  players_seq :: int
  games_seq :: int
  clock :: int

text \<open>
  Modelled from the spec: the constraints of the absent schema. The statement
  \<open>on conflict (game_id, player_id)\<close> needs a unique index on that pair
  (\<open>results_unique\<close>), and the spec has a result reference a game and two players
  through the database's referential integrity (\<open>references_ok\<close> is the check an
  insert or update of a result row passes).
\<close>

definition result_key :: "results_row \<Rightarrow> int \<times> int" where
  "result_key r = (r_game_id r, r_player_id r)"

definition results_unique :: "db \<Rightarrow> bool" where
  "results_unique d = distinct (map result_key (results d))"

definition game_exists :: "int \<Rightarrow> db \<Rightarrow> bool" where
  "game_exists game_id d = (\<exists>g \<in> set (games d). g_game_id g = game_id)"

definition player_exists :: "int \<Rightarrow> db \<Rightarrow> bool" where
  "player_exists player_id d = (\<exists>p \<in> set (players d). p_player_id p = player_id)"

definition references_ok :: "results_row \<Rightarrow> db \<Rightarrow> bool" where
  "references_ok r d =
     (game_exists (r_game_id r) d \<and> player_exists (r_player_id r) d \<and>
      (case r_eliminated_by_player_id r of None \<Rightarrow> True | Some e \<Rightarrow> player_exists e d))"

definition results_reference_games :: "db \<Rightarrow> bool" where
  "results_reference_games d = (\<forall>r \<in> set (results d). game_exists (r_game_id r) d)"


definition order_by_asc :: "('a \<Rightarrow> int) \<Rightarrow> 'a list \<Rightarrow> 'a list" where
  "order_by_asc key rows = sort_key key rows"



section \<open>Requests and responses\<close>

record GameCreate =
  game_title :: string
  start_time :: int
  venue_id :: int

record ResultCreate =
  finish_rank :: int
  player_id :: int
  points :: int
  kos :: int
  eliminated_by_player_id :: "int option"

record PlayerCreate =
  display_name :: string
  avatar_url :: "string option"

record VenueCreate =
  venue_name :: string
  address :: "string option"
  city :: string
  state :: string

text \<open>
  A handler either returns a body (status 200) or raises: \<open>HTTPException\<close> with its
  status code and detail, the framework's rejection of a parameter outside its declared
  range, or an error of the database driver that reaches the framework (status 500).
\<close>

datatype http_error =
  HTTPException int string
| RequestValidationError
| DatabaseError

type_synonym 'a response = "http_error + 'a"

record leaderboard_entry =
  le_finish_rank :: int
  le_player :: string
  le_points :: int
  le_kos :: int
  le_eliminated_by :: "string option"


record venue_ref =
  vr_venue_id :: int
  vr_venue_name :: string

record game_detail =
  gd_game_id :: int
  gd_game_title :: string
  gd_start_time :: "int option"
  gd_status :: string
  gd_venue :: venue_ref
  gd_results :: "leaderboard_entry list"

record game_created =
  gc_game_id :: int
  gc_game_title :: string
  gc_start_time :: "int option"
  gc_status :: string
  gc_venue :: venue_ref

text \<open>The two dictionaries \<open>add_results\<close> returns: \<open>{"error": ...}\<close> and
  \<open>{"game_id": ..., "inserted_results": ...}\<close>.\<close>

datatype add_results_body =
  ErrorBody string
| InsertedBody int nat

record player_out =
  po_player_id :: int
  po_display_name :: string
  po_avatar_url :: "string option"
  po_created_at :: "int option"

record venue_out =
  vo_venue_id :: int
  vo_venue_name :: string
  vo_address :: "string option"
  vo_city :: string
  vo_state :: string
  vo_created_at :: "int option"


definition quote :: string where
  "quote = [CHR 0x27]"

section \<open>Game resource\<close>

text \<open>\<open>GET /games\<close>: games joined with their venue, filtered by venue name under
  \<open>if venue:\<close>, newest start first, at most \<open>limit\<close> rows.\<close>

definition games_join_venues :: "db \<Rightarrow> (games_row \<times> venues_row) list" where
  "games_join_venues d =
     [(g, v). g \<leftarrow> games d, v \<leftarrow> venues d, v_venue_id v = g_venue_id g]"



text \<open>The leaderboard query, written out twice in the source (in \<open>get_game\<close> and in
  \<open>game_results\<close>) with the same text: results of the game joined with the player, left
  joined with the eliminating player, by ascending \<open>finish_rank\<close>.\<close>

definition eliminated_by_names :: "results_row \<Rightarrow> db \<Rightarrow> string option list" where
  "eliminated_by_names r d =
     (case filter (\<lambda>eb. Some (p_player_id eb) = r_eliminated_by_player_id r) (players d) of
        [] \<Rightarrow> [None]
      | ebs \<Rightarrow> map (\<lambda>eb. Some (p_display_name eb)) ebs)"

definition results_sql :: "int \<Rightarrow> db \<Rightarrow> leaderboard_entry list" where
  "results_sql game_id d =
     order_by_asc le_finish_rank
       [\<lparr>le_finish_rank = r_finish_rank r, le_player = p_display_name p,
         le_points = r_points r, le_kos = r_kos r, le_eliminated_by = eb\<rparr>.
          r \<leftarrow> results d, r_game_id r = game_id,
          p \<leftarrow> players d, p_player_id p = r_player_id r,
          eb \<leftarrow> eliminated_by_names r d]"

text \<open>\<open>GET /games/{game_id}\<close>: the first row of the game joined with its venue, or 404.\<close>

definition get_game :: "int \<Rightarrow> db \<Rightarrow> game_detail response" where
  "get_game game_id d =
     (case filter (\<lambda>gv. g_game_id (fst gv) = game_id) (games_join_venues d) of
        [] \<Rightarrow> Inl (HTTPException 404 (''Game '' @ str_int game_id @ '' not found''))
      | gv # _ \<Rightarrow>
          Inr \<lparr>gd_game_id = g_game_id (fst gv), gd_game_title = g_game_title (fst gv),
               gd_start_time = g_start_time (fst gv), gd_status = g_status (fst gv),
               gd_venue = \<lparr>vr_venue_id = v_venue_id (snd gv),
                           vr_venue_name = v_venue_name (snd gv)\<rparr>,
               gd_results = results_sql game_id d\<rparr>)"

text \<open>\<open>GET /games/{game_id}/results\<close>: the leaderboard, with no look at the games table.\<close>

definition game_results :: "int \<Rightarrow> db \<Rightarrow> leaderboard_entry list response" where
  "game_results game_id d = Inr (results_sql game_id d)"

text \<open>\<open>POST /games\<close>: the venue is looked up first; the insert writes the literal
  \<open>"scheduled"\<close> and the \<open>venue_id\<close> of the row found.\<close>

definition create_game :: "GameCreate \<Rightarrow> db \<Rightarrow> game_created response \<times> db" where
  "create_game game d =
     (case find (\<lambda>v. v_venue_id v = venue_id game) (venues d) of
        None \<Rightarrow>
          (Inl (HTTPException 400
                 (''venue_id '' @ str_int (venue_id game) @ '' does not exist'')), d)
      | Some v \<Rightarrow>
          (let row = \<lparr>g_game_id = games_seq d, g_game_title = game_title game,
                      g_start_time = Some (start_time game), g_status = ''scheduled'',
                      g_venue_id = v_venue_id v\<rparr>
           in (Inr \<lparr>gc_game_id = g_game_id row, gc_game_title = g_game_title row,
                    gc_start_time = g_start_time row, gc_status = g_status row,
                    gc_venue = \<lparr>vr_venue_id = g_venue_id row,
                                vr_venue_name = v_venue_name v\<rparr>\<rparr>,
               d\<lparr>games := games d @ [row], games_seq := games_seq d + 1\<rparr>)))"

text \<open>
  The statement \<open>insert into results ... on conflict (game_id, player_id) do update
  set ...\<close> for one submitted row: a row with the same key is overwritten in its four
  other columns, otherwise the row is appended. A violated reference makes the statement
  raise and changes nothing.
\<close>

definition result_row_of :: "int \<Rightarrow> ResultCreate \<Rightarrow> results_row" where
  "result_row_of game_id r =
     \<lparr>r_game_id = game_id, r_finish_rank = finish_rank r, r_player_id = player_id r,
      r_points = points r, r_kos = kos r,
      r_eliminated_by_player_id = eliminated_by_player_id r\<rparr>"

definition do_update :: "results_row \<Rightarrow> results_row \<Rightarrow> results_row" where
  "do_update excluded x =
     (if result_key x = result_key excluded
      then x\<lparr>r_finish_rank := r_finish_rank excluded, r_points := r_points excluded,
             r_kos := r_kos excluded,
             r_eliminated_by_player_id := r_eliminated_by_player_id excluded\<rparr>
      else x)"

definition insert_on_conflict :: "results_row \<Rightarrow> results_row list \<Rightarrow> results_row list" where
  "insert_on_conflict row rows =
     (if result_key row \<in> set (map result_key rows)
      then map (do_update row) rows
      else rows @ [row])"

definition execute_upsert :: "int \<Rightarrow> ResultCreate \<Rightarrow> db \<Rightarrow> http_error + db" where
  "execute_upsert game_id r d =
     (if references_ok (result_row_of game_id r) d
      then Inr (d\<lparr>results := insert_on_conflict (result_row_of game_id r) (results d)\<rparr>)
      else Inl DatabaseError)"

text \<open>The loop \<open>for r in results\<close>: one statement per row, in order; a statement that
  raises ends the call, and the rows before it stay written.\<close>

fun insert_results :: "int \<Rightarrow> ResultCreate list \<Rightarrow> db \<Rightarrow> http_error option \<times> db" where
  "insert_results game_id [] d = (None, d)"
| "insert_results game_id (r # rs) d =
     (case execute_upsert game_id r d of
        Inl e \<Rightarrow> (Some e, d)
      | Inr d' \<Rightarrow> insert_results game_id rs d')"

text \<open>\<open>POST /games/{game_id}/results\<close>.\<close>

definition add_results :: "int \<Rightarrow> ResultCreate list \<Rightarrow> db \<Rightarrow> add_results_body response \<times> db" where
  "add_results game_id rs d =
     (if \<not> game_exists game_id d
      then (Inr (ErrorBody (''Game '' @ str_int game_id @ '' not found'')), d)
      else (case insert_results game_id rs d of
              (Some e, d') \<Rightarrow> (Inl e, d')
            | (None, d') \<Rightarrow> (Inr (InsertedBody game_id (length rs)), d')))"

section \<open>Player resource\<close>

definition player_out_of :: "players_row \<Rightarrow> player_out" where
  "player_out_of p =
     \<lparr>po_player_id = p_player_id p, po_display_name = p_display_name p,
      po_avatar_url = p_avatar_url p, po_created_at = p_created_at p\<rparr>"


definition create_player :: "PlayerCreate \<Rightarrow> db \<Rightarrow> player_out response \<times> db" where
  "create_player player d =
     (case find (\<lambda>p. lower (p_display_name p) = lower (display_name player)) (players d) of
        Some existing \<Rightarrow>
          (Inl (HTTPException 409
                 (''player '' @ quote @ display_name player @ quote @ '' already exists'')), d)
      | None \<Rightarrow>
          (let row = \<lparr>p_player_id = players_seq d, p_display_name = display_name player,
                      p_avatar_url = avatar_url player, p_created_at = Some (clock d)\<rparr>
           in (Inr (player_out_of row),
               d\<lparr>players := players d @ [row], players_seq := players_seq d + 1\<rparr>)))"

section \<open>Venue resource\<close>

definition venue_out_of :: "venues_row \<Rightarrow> venue_out" where
  "venue_out_of v =
     \<lparr>vo_venue_id = v_venue_id v, vo_venue_name = v_venue_name v,
      vo_address = v_address v, vo_city = v_city v, vo_state = v_state v,
      vo_created_at = v_created_at v\<rparr>"


definition create_venue :: "VenueCreate \<Rightarrow> db \<Rightarrow> venue_out response \<times> db" where
  "create_venue venue d =
     (case find (\<lambda>v. lower (v_venue_name v) = lower (venue_name venue)) (venues d) of
        Some existing \<Rightarrow>
          (Inl (HTTPException 409
                 (''venue '' @ quote @ venue_name venue @ quote @ '' already exists'')), d)
      | None \<Rightarrow>
          (let row = \<lparr>v_venue_id = venues_seq d, v_venue_name = venue_name venue,
                      v_address = address venue, v_city = city venue, v_state = state venue,
                      v_created_at = Some (clock d)\<rparr>
           in (Inr (venue_out_of row),
               d\<lparr>venues := venues d @ [row], venues_seq := venues_seq d + 1\<rparr>)))"

section \<open>Notions of the specification\<close>



text \<open>The specification's duplicate: a stored name that matches case-insensitively.\<close>

definition venue_name_taken :: "string \<Rightarrow> db \<Rightarrow> bool" where
  "venue_name_taken name d = (\<exists>v \<in> set (venues d). lower (v_venue_name v) = lower name)"

definition player_name_taken :: "string \<Rightarrow> db \<Rightarrow> bool" where
  "player_name_taken name d = (\<exists>p \<in> set (players d). lower (p_display_name p) = lower name)"

definition venue_exists :: "int \<Rightarrow> db \<Rightarrow> bool" where
  "venue_exists vid d = (\<exists>v \<in> set (venues d). v_venue_id v = vid)"

text \<open>The rows of one (game, player) pair.\<close>

definition rows_of_pair :: "int \<Rightarrow> int \<Rightarrow> db \<Rightarrow> results_row list" where
  "rows_of_pair game_id pid d = filter (\<lambda>x. result_key x = (game_id, pid)) (results d)"

text \<open>A submitted row whose player and eliminating player both exist.\<close>

definition players_known :: "ResultCreate \<Rightarrow> db \<Rightarrow> bool" where
  "players_known r d =
     (player_exists (player_id r) d \<and>
      (case eliminated_by_player_id r of None \<Rightarrow> True | Some e \<Rightarrow> player_exists e d))"

section \<open>A sample database\<close>

definition sample_venue :: venues_row where
  "sample_venue =
     \<lparr>v_venue_id = 1, v_venue_name = ''Atlanta Card Club'', v_address = None,
      v_city = ''Atlanta'', v_state = ''GA'', v_created_at = Some 100\<rparr>"

definition sample_alice :: players_row where
  "sample_alice =
     \<lparr>p_player_id = 1, p_display_name = ''Alice'', p_avatar_url = None,
      p_created_at = Some 101\<rparr>"

definition sample_bob :: players_row where
  "sample_bob =
     \<lparr>p_player_id = 2, p_display_name = ''Bob'', p_avatar_url = None,
      p_created_at = Some 102\<rparr>"

definition sample_game :: games_row where
  "sample_game =
     \<lparr>g_game_id = 1, g_game_title = ''Weekly'', g_start_time = Some 200,
      g_status = ''scheduled'', g_venue_id = 1\<rparr>"

definition sample_db :: db where
  "sample_db =
     \<lparr>venues = [sample_venue], players = [sample_alice, sample_bob], games = [sample_game],
      results = [], venues_seq = 2, players_seq = 3, games_seq = 2, clock = 300\<rparr>"

definition sample_result :: "int \<Rightarrow> int \<Rightarrow> ResultCreate" where
  "sample_result pid pts =
     \<lparr>finish_rank = 1, player_id = pid, points = pts, kos = 2,
      eliminated_by_player_id = None\<rparr>"

section \<open>Facts about the text operators\<close>


lemma lower_char_meta_fix:
  "lower_char CHR ''%'' = CHR ''%''" "lower_char CHR ''_'' = CHR ''_''"
  "lower_char CHR 0x5C = CHR 0x5C"
  by (simp_all add: lower_char_def)








text \<open>The pattern a list endpoint builds never ends in a lone backslash, so the
  statement never raises on it.\<close>

lemma like_wellformed_append: "like_wellformed (p @ ''%'')"
  by (induction p rule: like_wellformed.induct) simp_all

lemma like_pattern_wellformed: "like_wellformed (lower (like_pattern q))"
proof -
  have "like_wellformed (CHR ''%'' # (p @ ''%''))" for p
    using like_wellformed_append [of p] by (cases p) simp_all
  moreover have "lower (like_pattern q) = CHR ''%'' # (lower q @ ''%'')"
    by (simp add: lower_def like_pattern_def lower_char_meta_fix)
  ultimately show ?thesis by simp
qed



section \<open>List endpoints\<close>








section \<open>Result upserts\<close>










lemma player_exists_cong: "players d' = players d \<Longrightarrow> player_exists p d' = player_exists p d"
  by (simp add: player_exists_def)

lemma players_known_cong: "players d' = players d \<Longrightarrow> players_known r d' = players_known r d"
  by (simp add: players_known_def player_exists_def split: option.splits)

lemma references_ok_iff:
  "references_ok (result_row_of game_id r) d \<longleftrightarrow> game_exists game_id d \<and> players_known r d"
  by (simp add: references_ok_def players_known_def result_row_of_def)

lemma execute_upsert_Inr:
  assumes "execute_upsert game_id r d = Inr d'"
  shows "results d' = insert_on_conflict (result_row_of game_id r) (results d)"
    and "players d' = players d" and "games d' = games d" and "venues d' = venues d"
  using assms by (auto simp: execute_upsert_def split: if_splits)

lemma execute_upsert_ok:
  "game_exists game_id d \<Longrightarrow> players_known r d \<Longrightarrow>
     execute_upsert game_id r d =
       Inr (d\<lparr>results := insert_on_conflict (result_row_of game_id r) (results d)\<rparr>)"
  by (simp add: execute_upsert_def references_ok_iff)




lemma insert_results_completes:
  "game_exists game_id d \<Longrightarrow> \<forall>r \<in> set rs. players_known r d \<Longrightarrow>
     fst (insert_results game_id rs d) = None"
proof (induction rs arbitrary: d)
  case Nil
  then show ?case by simp
next
  case (Cons r rs)
  define d1 where "d1 = d\<lparr>results := insert_on_conflict (result_row_of game_id r) (results d)\<rparr>"
  have pk: "players_known r d" using Cons.prems(2) by simp
  have u: "execute_upsert game_id r d = Inr d1"
    unfolding d1_def using Cons.prems(1) pk by (rule execute_upsert_ok)
  have g: "game_exists game_id d1"
    using Cons.prems(1) by (simp add: d1_def game_exists_def)
  have p: "\<forall>r \<in> set rs. players_known r d1"
  proof
    fix x assume "x \<in> set rs"
    then have "players_known x d" using Cons.prems(2) by simp
    moreover have "players d1 = players d" by (simp add: d1_def)
    ultimately show "players_known x d1" using players_known_cong by blast
  qed
  have "fst (insert_results game_id rs d1) = None" using g p by (rule Cons.IH)
  then show ?case by (simp add: u)
qed




lemma insert_results_reference_games:
  "results_reference_games d \<Longrightarrow> results_reference_games (snd (insert_results game_id rs d))"
proof (induction rs arbitrary: d)
  case Nil
  then show ?case by simp
next
  case (Cons r rs)
  show ?case
  proof (cases "execute_upsert game_id r d")
    case (Inl a)
    then show ?thesis using Cons.prems by simp
  next
    case (Inr d1)
    have g: "game_exists game_id d"
      using Inr by (simp add: execute_upsert_def references_ok_iff split: if_splits)
    have "\<forall>x \<in> set (insert_on_conflict (result_row_of game_id r) (results d)).
            game_exists (r_game_id x) d"
      using Cons.prems g
      by (auto simp: results_reference_games_def insert_on_conflict_def do_update_def
          result_row_of_def)
    then have "results_reference_games d1"
      using execute_upsert_Inr [OF Inr] by (simp add: results_reference_games_def game_exists_def)
    then show ?thesis using Cons.IH Inr by simp
  qed
qed

lemma add_results_snd:
  "snd (add_results game_id rs d) =
     (if game_exists game_id d then snd (insert_results game_id rs d) else d)"
  by (simp add: add_results_def split: prod.splits option.splits)

lemma add_results_fst:
  "game_exists game_id d \<Longrightarrow>
     fst (add_results game_id rs d) =
       (case fst (insert_results game_id rs d) of
          Some e \<Rightarrow> Inl e
        | None \<Rightarrow> Inr (InsertedBody game_id (length rs)))"
  by (simp add: add_results_def split: prod.splits option.splits)

text \<open>
  C2. For a \<open>game_id\<close> that no game has, \<open>add_results\<close> checks the games table and
  returns normally (a 200 response, not a raised error) with the body
  \<open>{"error": "Game <id> not found"}\<close>; the database is returned as it was, so no result
  row is inserted or modified.
\<close>

theorem add_results_unknown_game:
  "\<not> game_exists game_id d \<Longrightarrow>
     add_results game_id rs d =
       (Inr (ErrorBody (''Game '' @ str_int game_id @ '' not found'')), d)"
  by (simp add: add_results_def)

theorem add_results_unknown_game_witness:
  "\<not> game_exists 7 sample_db \<and>
   add_results 7 [sample_result 1 10] sample_db =
     (Inr (ErrorBody ''Game 7 not found''), sample_db)"
proof -
  have h: "\<not> game_exists 7 sample_db"
    by (simp add: game_exists_def sample_db_def sample_game_def)
  have s: "str_int 7 = ''7''" by (simp add: str_int_def digit_char_def)
  show ?thesis
    using h s add_results_unknown_game [OF h, of "[sample_result 1 10]"] by simp
qed

text \<open>
  C7. On an existing game, every response body of \<open>add_results\<close> reports
  \<open>inserted_results\<close> as the length of the submitted sequence, and the call does return
  that body whenever the submitted rows reference existing players. The count is of rows
  submitted, not of rows inserted or changed: on the sample database the same row
  submitted twice in one call is counted as 2 while one row is stored.
\<close>

theorem add_results_counts_submitted:
  assumes "game_exists game_id d"
  shows "(\<forall>body. fst (add_results game_id rs d) = Inr body \<longrightarrow>
            body = InsertedBody game_id (length rs)) \<and>
         ((\<forall>r \<in> set rs. players_known r d) \<longrightarrow>
            fst (add_results game_id rs d) = Inr (InsertedBody game_id (length rs)))"
proof (intro conjI allI impI)
  fix body
  assume "fst (add_results game_id rs d) = Inr body"
  then show "body = InsertedBody game_id (length rs)"
    using assms by (simp add: add_results_fst split: option.splits)
next
  assume "\<forall>r \<in> set rs. players_known r d"
  then have "fst (insert_results game_id rs d) = None"
    using assms by (simp add: insert_results_completes)
  then show "fst (add_results game_id rs d) = Inr (InsertedBody game_id (length rs))"
    using assms by (simp add: add_results_fst)
qed

lemma sample_known:
  "game_exists 1 sample_db" "players_known (sample_result 1 pts) sample_db"
  "players_known (sample_result 2 pts) sample_db" "results_unique sample_db"
  "results_reference_games sample_db"
  by (simp_all add: game_exists_def players_known_def player_exists_def sample_db_def
      sample_game_def sample_alice_def sample_bob_def sample_result_def results_unique_def
      results_reference_games_def)

lemma sample_twice:
  "results (snd (add_results 1 [sample_result 1 10, sample_result 1 10] sample_db)) =
     [result_row_of 1 (sample_result 1 10)]"
  by (simp add: add_results_def game_exists_def execute_upsert_def references_ok_def
      player_exists_def result_row_of_def insert_on_conflict_def result_key_def do_update_def
      sample_db_def sample_game_def sample_alice_def sample_bob_def sample_result_def)

theorem add_results_counts_submitted_witness:
  "game_exists 1 sample_db \<and>
   fst (add_results 1 [sample_result 1 10, sample_result 1 10] sample_db) =
     Inr (InsertedBody 1 2) \<and>
   length (results (snd (add_results 1 [sample_result 1 10, sample_result 1 10] sample_db))) = 1"
proof -
  have pk: "\<forall>r \<in> set [sample_result 1 10, sample_result 1 10]. players_known r sample_db"
    by (simp add: sample_known)
  have "fst (add_results 1 [sample_result 1 10, sample_result 1 10] sample_db) =
          Inr (InsertedBody 1 (length [sample_result 1 10, sample_result 1 10]))"
    using add_results_counts_submitted
            [OF sample_known(1), of "[sample_result 1 10, sample_result 1 10]"] pk
    by blast
  then show ?thesis using sample_known(1) sample_twice by simp
qed



lemma sample_resubmit:
  "rows_of_pair 1 1
     (snd (add_results 1 [sample_result 1 10] (snd (add_results 1 [sample_result 1 10] sample_db)))) =
     [\<lparr>r_game_id = 1, r_finish_rank = 1, r_player_id = 1, r_points = 10, r_kos = 2,
       r_eliminated_by_player_id = None\<rparr>]"
  by (simp add: add_results_def game_exists_def execute_upsert_def references_ok_def
      player_exists_def result_row_of_def insert_on_conflict_def result_key_def do_update_def
      rows_of_pair_def
      sample_db_def sample_game_def sample_alice_def sample_bob_def sample_result_def)





section \<open>Game lookups and game creation\<close>

lemma games_join_venues_game:
  "gv \<in> set (games_join_venues d) \<Longrightarrow> fst gv \<in> set (games d)"
  by (auto simp: games_join_venues_def split: if_splits)

lemma concat_map_if_none:
  "\<forall>x \<in> set xs. \<not> P x \<Longrightarrow> concat (map (\<lambda>x. if P x then g x else []) xs) = []"
  by (induction xs) simp_all

lemma results_sql_empty:
  assumes "\<forall>r \<in> set (results d). r_game_id r \<noteq> game_id"
  shows "results_sql game_id d = []"
  using assms by (simp add: results_sql_def order_by_asc_def concat_map_if_none)

text \<open>
  C3. For a \<open>game_id\<close> that no game has, \<open>get_game\<close> raises \<open>HTTPException\<close> 404 with
  the detail "Game <id> not found", while \<open>game_results\<close> for the same id returns
  normally with the empty list. The results table is taken to reference existing games
  only; \<open>insert_results_reference_games\<close>, \<open>add_results_reference_games\<close> and the
  \<open>create_*_invariants\<close> lemmas show that every write of the service keeps that.
\<close>

theorem unknown_game_asymmetry:
  assumes "\<not> game_exists game_id d" and "results_reference_games d"
  shows "get_game game_id d =
           Inl (HTTPException 404 (''Game '' @ str_int game_id @ '' not found'')) \<and>
         game_results game_id d = Inr []"
proof
  have "\<forall>gv \<in> set (games_join_venues d). g_game_id (fst gv) \<noteq> game_id"
    using assms(1) games_join_venues_game by (fastforce simp: game_exists_def)
  then have "filter (\<lambda>gv. g_game_id (fst gv) = game_id) (games_join_venues d) = []"
    by (simp add: filter_empty_conv)
  then show "get_game game_id d =
           Inl (HTTPException 404 (''Game '' @ str_int game_id @ '' not found''))"
    by (simp add: get_game_def)
next
  have "\<forall>r \<in> set (results d). r_game_id r \<noteq> game_id"
    using assms by (auto simp: results_reference_games_def)
  then show "game_results game_id d = Inr []"
    by (simp add: game_results_def results_sql_empty)
qed

theorem unknown_game_asymmetry_witness:
  "\<not> game_exists 7 sample_db \<and> results_reference_games sample_db \<and>
   get_game 7 sample_db = Inl (HTTPException 404 ''Game 7 not found'') \<and>
   game_results 7 sample_db = Inr []"
proof -
  have h: "\<not> game_exists 7 sample_db"
    by (simp add: game_exists_def sample_db_def sample_game_def)
  have s: "str_int 7 = ''7''" by (simp add: str_int_def digit_char_def)
  show ?thesis
    using h s sample_known(5) unknown_game_asymmetry [OF h sample_known(5)] by simp
qed

lemma find_venue_None:
  "\<not> venue_exists vid d \<Longrightarrow> find (\<lambda>v. v_venue_id v = vid) (venues d) = None"
  by (auto simp: venue_exists_def find_None_iff)


text \<open>
  C5. A \<open>create_game\<close> request whose \<open>venue_id\<close> matches no venue raises
  \<open>HTTPException\<close> with status 400, and the database is returned as it was: no game row
  is created.
\<close>

theorem create_game_unknown_venue:
  "\<not> venue_exists (venue_id game) d \<Longrightarrow>
     create_game game d =
       (Inl (HTTPException 400
              (''venue_id '' @ str_int (venue_id game) @ '' does not exist'')), d)"
  by (simp add: create_game_def find_venue_None)

theorem create_game_unknown_venue_witness:
  "\<not> venue_exists 9 sample_db \<and>
   create_game \<lparr>game_title = ''Weekly'', start_time = 500, venue_id = 9\<rparr> sample_db =
     (Inl (HTTPException 400 ''venue_id 9 does not exist''), sample_db)"
proof -
  have h: "\<not> venue_exists (venue_id \<lparr>game_title = ''Weekly'', start_time = 500, venue_id = 9\<rparr>)
             sample_db"
    by (simp add: venue_exists_def sample_db_def sample_venue_def)
  have s: "str_int 9 = ''9''" by (simp add: str_int_def digit_char_def)
  show ?thesis
    using h s create_game_unknown_venue [OF h] by simp
qed



section \<open>Venue and player creation, and what every write keeps\<close>

lemma add_results_reference_games:
  "results_reference_games d \<Longrightarrow> results_reference_games (snd (add_results game_id rs d))"
  by (simp add: add_results_snd insert_results_reference_games)

lemma create_game_invariants:
  "results_reference_games d \<Longrightarrow> results_reference_games (snd (create_game game d))"
  "results_unique d \<Longrightarrow> results_unique (snd (create_game game d))"
  by (auto simp: create_game_def Let_def results_reference_games_def results_unique_def game_exists_def
      split: option.splits)

lemma create_player_invariants:
  "results_reference_games d \<Longrightarrow> results_reference_games (snd (create_player player d))"
  "results_unique d \<Longrightarrow> results_unique (snd (create_player player d))"
  by (auto simp: create_player_def Let_def results_reference_games_def results_unique_def
      game_exists_def split: option.splits)

lemma create_venue_invariants:
  "results_reference_games d \<Longrightarrow> results_reference_games (snd (create_venue venue d))"
  "results_unique d \<Longrightarrow> results_unique (snd (create_venue venue d))"
  by (auto simp: create_venue_def Let_def results_reference_games_def results_unique_def
      game_exists_def split: option.splits)

lemma find_name_Some:
  "\<exists>x \<in> set xs. P x \<Longrightarrow> \<exists>y. find P xs = Some y"
  by (cases "find P xs") (auto simp: find_None_iff)

lemma create_venue_conflict:
  assumes "venue_name_taken (venue_name venue) d"
  shows "create_venue venue d =
           (Inl (HTTPException 409
                  (''venue '' @ quote @ venue_name venue @ quote @ '' already exists'')), d)"
proof -
  obtain y where "find (\<lambda>v. lower (v_venue_name v) = lower (venue_name venue)) (venues d) = Some y"
    using assms find_name_Some [of "venues d" "\<lambda>v. lower (v_venue_name v) = lower (venue_name venue)"]
    by (auto simp: venue_name_taken_def)
  then show ?thesis by (simp add: create_venue_def)
qed

lemma create_player_conflict:
  assumes "player_name_taken (display_name player) d"
  shows "create_player player d =
           (Inl (HTTPException 409
                  (''player '' @ quote @ display_name player @ quote @ '' already exists'')), d)"
proof -
  obtain y where
    "find (\<lambda>p. lower (p_display_name p) = lower (display_name player)) (players d) = Some y"
    using assms
      find_name_Some [of "players d" "\<lambda>p. lower (p_display_name p) = lower (display_name player)"]
    by (auto simp: player_name_taken_def)
  then show ?thesis by (simp add: create_player_def)
qed

lemma create_venue_takes_name:
  assumes "create_venue venue0 d0 = (Inr vout, d)"
    and "lower (venue_name venue) = lower (venue_name venue0)"
  shows "venue_name_taken (venue_name venue) d"
  using assms
  by (auto simp: create_venue_def venue_name_taken_def Let_def split: option.splits)

lemma create_player_takes_name:
  assumes "create_player player0 d0 = (Inr pout, d)"
    and "lower (display_name player) = lower (display_name player0)"
  shows "player_name_taken (display_name player) d"
  using assms
  by (auto simp: create_player_def player_name_taken_def Let_def split: option.splits)

text \<open>
  C4. When a stored venue (player) name matches the submitted name case-insensitively,
  \<open>create_venue\<close> (\<open>create_player\<close>) raises \<open>HTTPException\<close> 409 whose detail quotes
  the submitted name, and the database is returned as it was: no row is inserted. A venue
  (player) that an earlier call created is such a stored name for every later request
  whose name equals it up to letter case.
\<close>

theorem create_duplicate_conflict:
  "(venue_name_taken (venue_name venue) d \<longrightarrow>
      create_venue venue d =
        (Inl (HTTPException 409
               (''venue '' @ quote @ venue_name venue @ quote @ '' already exists'')), d)) \<and>
   (player_name_taken (display_name player) d \<longrightarrow>
      create_player player d =
        (Inl (HTTPException 409
               (''player '' @ quote @ display_name player @ quote @ '' already exists'')), d)) \<and>
   (create_venue venue0 d0 = (Inr vout, d) \<and> lower (venue_name venue) = lower (venue_name venue0)
      \<longrightarrow> venue_name_taken (venue_name venue) d) \<and>
   (create_player player0 d0 = (Inr pout, d) \<and>
      lower (display_name player) = lower (display_name player0)
      \<longrightarrow> player_name_taken (display_name player) d)"
  using create_venue_conflict create_player_conflict create_venue_takes_name
    create_player_takes_name
  by blast

lemma sample_taken:
  "venue_name_taken ''ATLANTA card club'' sample_db" "player_name_taken ''alice'' sample_db"
  by (simp_all add: venue_name_taken_def player_name_taken_def sample_db_def sample_venue_def
      sample_alice_def sample_bob_def lower_def lower_char_def)

theorem create_duplicate_conflict_witness:
  "venue_name_taken ''ATLANTA card club'' sample_db \<and>
   player_name_taken ''alice'' sample_db \<and>
   create_venue \<lparr>venue_name = ''ATLANTA card club'', address = None, city = ''Atlanta'',
                 state = ''GA''\<rparr> sample_db =
     (Inl (HTTPException 409
            (''venue '' @ quote @ ''ATLANTA card club'' @ quote @ '' already exists'')),
      sample_db) \<and>
   create_player \<lparr>display_name = ''alice'', avatar_url = None\<rparr> sample_db =
     (Inl (HTTPException 409 (''player '' @ quote @ ''alice'' @ quote @ '' already exists'')),
      sample_db)"
  using create_duplicate_conflict
          [of "\<lparr>venue_name = ''ATLANTA card club'', address = None, city = ''Atlanta'',
                 state = ''GA''\<rparr>" sample_db "\<lparr>display_name = ''alice'', avatar_url = None\<rparr>"]
        sample_taken
  by simp

end
